theory Spec2Isabelle
  imports Main "HOL-Library.AList"
begin

section \<open>Python values: exceptions, text and integers\<close>

text \<open>
  The process manager (\<^verbatim>\<open>process_manager.py\<close>) is embedded as functions over an
  explicit \<open>world\<close>: the instance directories with their PID files, the kernel's process
  table, the loopback ports and the messages printed so far. Every exception the source
  can meet is a value of \<open>exn\<close>; a function that can raise returns \<open>exn + 'a\<close> together
  with the world as it stands at that moment, so that what an uncaught exception leaves
  on disk can be stated.
\<close>

datatype errno = ESRCH | EPERM | EACCES | ENOENT | EADDRINUSE

datatype exn =
    OSError errno
  | ValueError
  | OverflowError
  | CalledProcessError
  | KeyboardInterrupt

text \<open>\<^verbatim>\<open>except Exception\<close> catches every exception of the model but KeyboardInterrupt.\<close>

definition is_Exception :: "exn \<Rightarrow> bool" where
  "is_Exception e = (e \<noteq> KeyboardInterrupt)"

text \<open>
  File contents are text whose characters are the code points below 256. On these,
  \<^verbatim>\<open>str.isspace\<close> holds for TAB..CR, FS..US, the blank, NEL and the no-break space, and the
  only decimal digits \<^verbatim>\<open>int()\<close> accepts are \<open>0\<close>..\<open>9\<close>.
\<close>

definition py_isspace :: "char \<Rightarrow> bool" where
  "py_isspace c = (of_char c \<in> {9, 10, 11, 12, 13, 28, 29, 30, 31, 32, 133, 160 :: nat})"

definition py_strip :: "string \<Rightarrow> string" where
  "py_strip s = rev (dropWhile py_isspace (rev (dropWhile py_isspace s)))"

definition is_digit :: "char \<Rightarrow> bool" where
  "is_digit c = (48 \<le> (of_char c :: nat) \<and> (of_char c :: nat) \<le> 57)"

definition digit_val :: "char \<Rightarrow> nat" where
  "digit_val c = of_char c - 48"

text \<open>
  The digit part of a decimal literal: digits, with single underscores allowed between
  two digits (\<^verbatim>\<open>int("1_000")\<close> is 1000; \<^verbatim>\<open>int("1__0")\<close>, \<^verbatim>\<open>int("_1")\<close> and
  \<^verbatim>\<open>int("1_")\<close> raise ValueError).
\<close>

fun digits_ok :: "string \<Rightarrow> bool" where
  "digits_ok [] = False"
| "digits_ok [c] = is_digit c"
| "digits_ok (c # d # cs) =
     (is_digit c \<and> (if d = CHR ''_'' then digits_ok cs else digits_ok (d # cs)))"

definition digits_val :: "string \<Rightarrow> nat" where
  "digits_val s = foldl (\<lambda>a c. 10 * a + digit_val c) 0 (filter (\<lambda>c. c \<noteq> CHR ''_'') s)"

text \<open>
  \<^verbatim>\<open>int(s)\<close> on a string: surrounding whitespace is skipped, one sign is allowed, leading
  zeros are allowed, the result is unbounded. (The interpreter's optional cap on the
  length of a numeral, which turns over-long numerals into ValueError, is not part of
  the model.)
\<close>

definition py_int :: "string \<Rightarrow> exn + int" where
  "py_int s =
     (case py_strip s of
        [] \<Rightarrow> Inl ValueError
      | c # cs \<Rightarrow>
          if c = CHR ''-'' then
            (if digits_ok cs then Inr (- int (digits_val cs)) else Inl ValueError)
          else if c = CHR ''+'' then
            (if digits_ok cs then Inr (int (digits_val cs)) else Inl ValueError)
          else
            (if digits_ok (c # cs) then Inr (int (digits_val (c # cs))) else Inl ValueError))"

text \<open>\<^verbatim>\<open>str(n)\<close> on an integer, used for file names and for the content of a PID file.\<close>

definition digit_char :: "nat \<Rightarrow> char" where
  "digit_char n = ''0123456789'' ! n"

fun nat_digits :: "nat \<Rightarrow> string" where
  "nat_digits n = (if n < 10 then [digit_char n] else nat_digits (n div 10) @ [digit_char (n mod 10)])"

declare nat_digits.simps [simp del]

definition py_str :: "int \<Rightarrow> string" where
  "py_str i = (if i < 0 then CHR ''-'' # nat_digits (nat (- i)) else nat_digits (nat i))"

text \<open>Truthiness of an optional integer argument: \<^verbatim>\<open>None\<close> and \<^verbatim>\<open>0\<close> are both falsy.\<close>

definition truthy :: "int option \<Rightarrow> bool" where
  "truthy p = (case p of None \<Rightarrow> False | Some n \<Rightarrow> n \<noteq> 0)"

text \<open>The value of the port argument where the source has found it truthy.\<close>

definition the_port :: "int option \<Rightarrow> int" where
  "the_port p = (case p of None \<Rightarrow> 0 | Some n \<Rightarrow> n)"

section \<open>PortAllocator\<close>

text \<open>
  \<^verbatim>\<open>socket.bind(('127.0.0.1', port))\<close>: a port outside \<open>0..65535\<close> raises OverflowError
  before the kernel is asked; otherwise the bind succeeds when the port is free and
  raises OSError when it is not. \<open>free\<close> is the state of the loopback ports.
\<close>

definition socket_bind :: "(int \<Rightarrow> bool) \<Rightarrow> int \<Rightarrow> exn + unit" where
  "socket_bind free port =
     (if port < 0 \<or> 65535 < port then Inl OverflowError
      else if free port then Inr ()
      else Inl (OSError EADDRINUSE))"

text \<open>
  The loop \<^verbatim>\<open>for port in range(start_port, start_port + max_attempts)\<close>, with the number
  of ports still to try as the recursion argument. OSError is caught and the loop
  continues; any other exception leaves the function.
\<close>

fun probe_ports :: "(int \<Rightarrow> bool) \<Rightarrow> int \<Rightarrow> nat \<Rightarrow> exn + int option" where
  "probe_ports free port 0 = Inr None"
| "probe_ports free port (Suc n) =
     (case socket_bind free port of
        Inr _ \<Rightarrow> Inr (Some port)
      | Inl (OSError _) \<Rightarrow> probe_ports free (port + 1) n
      | Inl e \<Rightarrow> Inl e)"

definition find_available_port :: "(int \<Rightarrow> bool) \<Rightarrow> int \<Rightarrow> int \<Rightarrow> exn + int option" where
  "find_available_port free start_port max_attempts =
     probe_ports free start_port (nat max_attempts)"

section \<open>InstanceDirectory\<close>

type_synonym path = string

datatype system = Darwin | Linux | Windows | OtherSystem

text \<open>
  What \<^verbatim>\<open>get_pid_directory\<close> and the callers ask of the host: the platform, the home and
  working directories, three environment variables, whether \<^verbatim>\<open>/tmp\<close> exists, how a
  path resolves, and for which directories creating the directory and creating and
  removing the probe file \<^verbatim>\<open>.write_test\<close> all succeed (\<open>usable\<close>).
\<close>

record host =
  platform_system :: system
  home :: path
  cwd :: path
  appdata :: "string option"
  localappdata :: "string option"
  temp :: "string option"
  tmp_exists :: bool
  resolve :: "path \<Rightarrow> path"
  usable :: "path \<Rightarrow> bool"

definition pjoin :: "path \<Rightarrow> string \<Rightarrow> path" where
  "pjoin p q = p @ ''/'' @ q"

definition env_dir :: "string option \<Rightarrow> string list \<Rightarrow> path list" where
  "env_dir v parts =
     (case v of None \<Rightarrow> [] | Some d \<Rightarrow> if d = [] then [] else [foldl pjoin d parts])"

definition candidates :: "host \<Rightarrow> path list" where
  "candidates h =
     (case platform_system h of
        Darwin \<Rightarrow>
          [foldl pjoin (home h) [''Library'', ''Application Support'', ''Aigon'', ''pids''],
           foldl pjoin (home h) [''.cache'', ''aigon'', ''pids''],
           pjoin ''/tmp'' ''aigon-fileserver'']
      | Linux \<Rightarrow>
          [foldl pjoin (home h) [''.cache'', ''aigon'', ''pids''],
           foldl pjoin (home h) [''.local'', ''share'', ''aigon'', ''pids''],
           pjoin ''/tmp'' ''aigon-fileserver'']
      | Windows \<Rightarrow>
          env_dir (appdata h) [''Aigon'', ''pids'']
          @ env_dir (localappdata h) [''Aigon'', ''pids'']
          @ env_dir (temp h) [''aigon-fileserver'']
      | OtherSystem \<Rightarrow>
          [foldl pjoin (home h) [''.cache'', ''aigon'', ''pids'']]
          @ (if tmp_exists h then [pjoin ''/tmp'' ''aigon-fileserver''] else []))"

text \<open>
  The first candidate that is usable, the fallback being the last candidate; the
  fallback again when none is.
\<close>

definition get_pid_directory :: "host \<Rightarrow> path \<Rightarrow> path" where
  "get_pid_directory h fallback_dir =
     (case List.find (usable h) (candidates h @ [fallback_dir]) of
        Some c \<Rightarrow> c
      | None \<Rightarrow> fallback_dir)"

text \<open>\<^verbatim>\<open>Path(directory).resolve() if directory else Path.cwd()\<close>\<close>

definition serve_directory :: "host \<Rightarrow> string option \<Rightarrow> path" where
  "serve_directory h directory =
     (case directory of
        None \<Rightarrow> cwd h
      | Some d \<Rightarrow> if d = [] then cwd h else resolve h d)"

section \<open>InstanceRecord: PID files\<close>

text \<open>
  A directory is the list of its entries in the order the operating system enumerates
  them. A file is text, or a file whose read is refused; both exist and can be
  unlinked. Writes and unlinks in the instance directory fail only for a missing file.
\<close>

datatype fnode = Text string | Unreadable

type_synonym listing = "(string \<times> fnode) list"

definition exists_file :: "listing \<Rightarrow> string \<Rightarrow> bool" where
  "exists_file d name = (map_of d name \<noteq> None)"

definition read_text :: "listing \<Rightarrow> string \<Rightarrow> exn + string" where
  "read_text d name =
     (case map_of d name of
        None \<Rightarrow> Inl (OSError ENOENT)
      | Some Unreadable \<Rightarrow> Inl (OSError EACCES)
      | Some (Text s) \<Rightarrow> Inr s)"

text \<open>\<^verbatim>\<open>int(pid_file.read_text().strip())\<close>\<close>

definition read_pid :: "listing \<Rightarrow> string \<Rightarrow> exn + int" where
  "read_pid d name =
     (case read_text d name of
        Inl e \<Rightarrow> Inl e
      | Inr s \<Rightarrow> py_int (py_strip s))"

definition write_text :: "listing \<Rightarrow> string \<Rightarrow> string \<Rightarrow> listing" where
  "write_text d name s = AList.update name (Text s) d"

definition pid_file_name :: "int \<Rightarrow> string" where
  "pid_file_name port = ''fileserver.'' @ py_str port @ ''.pid''"

text \<open>\<^verbatim>\<open>pid_dir.glob("fileserver.*.pid")\<close>\<close>

definition is_pid_file_name :: "string \<Rightarrow> bool" where
  "is_pid_file_name name =
     (15 \<le> length name \<and> take 11 name = ''fileserver.''
      \<and> drop (length name - 4) name = ''.pid'')"

definition glob_pid_files :: "listing \<Rightarrow> string list" where
  "glob_pid_files d = filter is_pid_file_name (map fst d)"

text \<open>\<^verbatim>\<open>pid_file.stem.split('.')[-1]\<close>\<close>

definition last_part :: "string \<Rightarrow> string" where
  "last_part s = rev (takeWhile (\<lambda>c. c \<noteq> CHR ''.'') (rev s))"

definition py_stem :: "string \<Rightarrow> string" where
  "py_stem name =
     (if CHR ''.'' \<notin> set name then name
      else let suffix = last_part name; i = length name - length suffix - 1
           in if 0 < i \<and> suffix \<noteq> [] then take i name else name)"

definition port_of_file :: "string \<Rightarrow> string" where
  "port_of_file name = last_part (py_stem name)"

section \<open>LivenessProbe and signals\<close>

text \<open>
  The process table maps a PID to the process it denotes. A process may refuse the
  caller's signals (EPERM), and may or may not exit on SIGTERM within the grace period;
  SIGKILL always ends a process that accepts the caller's signals. \<^verbatim>\<open>os.kill\<close> converts
  the PID to a C \<^verbatim>\<open>int\<close> first and raises OverflowError when it does not fit.
\<close>

datatype proc = Proc (signalable: bool) (dies_on_term: bool)

datatype signal = SIG0 | SIGTERM | SIGKILL

type_synonym proctable = "int \<Rightarrow> proc option"

definition os_kill :: "int \<Rightarrow> signal \<Rightarrow> proctable \<Rightarrow> exn + proctable" where
  "os_kill pid sig ps =
     (if pid < - 2147483648 \<or> 2147483647 < pid then Inl OverflowError
      else case ps pid of
        None \<Rightarrow> Inl (OSError ESRCH)
      | Some p \<Rightarrow>
          if \<not> signalable p then Inl (OSError EPERM)
          else Inr (case sig of
                      SIG0 \<Rightarrow> ps
                    | SIGTERM \<Rightarrow> if dies_on_term p then ps(pid := None) else ps
                    | SIGKILL \<Rightarrow> ps(pid := None)))"

definition is_process_running :: "proctable \<Rightarrow> int \<Rightarrow> exn + bool" where
  "is_process_running ps pid =
     (case os_kill pid SIG0 ps of
        Inr _ \<Rightarrow> Inr True
      | Inl (OSError _) \<Rightarrow> Inr False
      | Inl e \<Rightarrow> Inl e)"

section \<open>The world and what is printed\<close>

datatype msg =
    NoPortsFound int
  | PortInUse int int
  | AlreadyRunning int int
  | Url string int
  | KillPortHint int
  | StartingServer
  | Serving path
  | Blank
  | PressCtrlC
  | ServerStopped
  | ErrorRunningServer
  | StartingBackground
  | PidSaved int string
  | ServerFailedToStart
  | StderrOutput string
  | OpeningBrowser
  | RunningInBackground
  | KillHint
  | ErrorStartingServer
  | NoViewersRunning
  | ViewersRunning nat
  | ViewerLine string int
  | NoViewersCleaned nat
  | NoViewerOnPort int
  | Stopped string int
  | ForceKilling
  | NotFound int
  | ErrorKilling int
  | InvalidPidFile string
  | ErrorProcessing string
  | StoppedSummary nat

record world =
  host_of :: host
  fs :: "path \<Rightarrow> listing"
  procs :: proctable
  ports :: "int \<Rightarrow> bool"
  out :: "msg list"

definition say :: "msg \<Rightarrow> world \<Rightarrow> world" where
  "say m w = w\<lparr>out := out w @ [m]\<rparr>"

definition says :: "msg list \<Rightarrow> world \<Rightarrow> world" where
  "says ms w = w\<lparr>out := out w @ ms\<rparr>"

text \<open>\<^verbatim>\<open>pid_file.unlink()\<close>: FileNotFoundError when the file is missing.\<close>

definition unlink :: "path \<Rightarrow> string \<Rightarrow> world \<Rightarrow> (exn + unit) \<times> world" where
  "unlink dir name w =
     (if exists_file (fs w dir) name
      then (Inr (), w\<lparr>fs := (fs w)(dir := AList.delete name (fs w dir))\<rparr>)
      else (Inl (OSError ENOENT), w))"

section \<open>LifecycleController: launch\<close>

text \<open>
  How the environment answers the spawn of this launch. \<open>run_raises\<close> is what
  \<^verbatim>\<open>subprocess.run(cmd, check=True)\<close> raises in foreground mode, if anything. In background
  mode \<^verbatim>\<open>Popen\<close> either raises or starts a child: its PID, the process it is when the two
  seconds of grace are over (\<open>None\<close> when it has exited: \<^verbatim>\<open>poll()\<close> is then not
  \<^verbatim>\<open>None\<close>), and what it wrote to its standard error. \<open>opener_raises\<close> is what starting
  the browser opener raises, if anything.
\<close>

datatype popen = PopenRaises exn | Child int "proc option" string

record spawn =
  run_raises :: "exn option"
  popen_result :: popen
  opener_raises :: "exn option"

text \<open>
  Lines 173 to 187: the record at the chosen port's path. The result is \<open>True\<close> when the
  launch has to stop because the recorded process runs. An OSError or ValueError raised
  in the \<^verbatim>\<open>try\<close> block is handled by unlinking the file; an exception raised by that
  unlink, and any other exception, leaves the function.
\<close>

definition check_record_body ::
  "path \<Rightarrow> string \<Rightarrow> int \<Rightarrow> string \<Rightarrow> world \<Rightarrow> (exn + bool) \<times> world" where
  "check_record_body pid_dir pid_file actual_port hostname w =
     (case read_pid (fs w pid_dir) pid_file of
        Inl e \<Rightarrow> (Inl e, w)
      | Inr existing_pid \<Rightarrow>
          (case is_process_running (procs w) existing_pid of
             Inl e \<Rightarrow> (Inl e, w)
           | Inr True \<Rightarrow>
               (Inr True,
                says [AlreadyRunning actual_port existing_pid, Url hostname actual_port,
                      KillPortHint actual_port] w)
           | Inr False \<Rightarrow>
               (case unlink pid_dir pid_file w of
                  (Inl e, w1) \<Rightarrow> (Inl e, w1)
                | (Inr _, w1) \<Rightarrow> (Inr False, w1))))"

definition check_record ::
  "path \<Rightarrow> string \<Rightarrow> int \<Rightarrow> string \<Rightarrow> world \<Rightarrow> (exn + bool) \<times> world" where
  "check_record pid_dir pid_file actual_port hostname w =
     (if \<not> exists_file (fs w pid_dir) pid_file then (Inr False, w)
      else
        (case check_record_body pid_dir pid_file actual_port hostname w of
           (Inl (OSError en), w1) \<Rightarrow>
             (case unlink pid_dir pid_file w1 of
                (Inl e, w2) \<Rightarrow> (Inl e, w2)
              | (Inr _, w2) \<Rightarrow> (Inr False, w2))
         | (Inl ValueError, w1) \<Rightarrow>
             (case unlink pid_dir pid_file w1 of
                (Inl e, w2) \<Rightarrow> (Inl e, w2)
              | (Inr _, w2) \<Rightarrow> (Inr False, w2))
         | r \<Rightarrow> r))"

type_synonym launched = "(int \<times> int option) option"

text \<open>Lines 208 to 225: foreground mode. No record is written.\<close>

definition launch_foreground ::
  "path \<Rightarrow> int \<Rightarrow> string \<Rightarrow> spawn \<Rightarrow> world \<Rightarrow> (exn + launched) \<times> world" where
  "launch_foreground serve_dir actual_port hostname sp w =
     (let w1 = says [StartingServer, Serving serve_dir, Url hostname actual_port,
                     Blank, PressCtrlC, Blank] w
      in case run_raises sp of
           None \<Rightarrow> (Inr (Some (actual_port, None)), w1)
         | Some KeyboardInterrupt \<Rightarrow> (Inr (Some (actual_port, None)), say ServerStopped w1)
         | Some CalledProcessError \<Rightarrow> (Inr None, say ErrorRunningServer w1)
         | Some e \<Rightarrow> (Inl e, w1))"

text \<open>
  Lines 299 to 303: the handler of \<^verbatim>\<open>except Exception\<close> around the background launch.
\<close>

definition launch_failed :: "path \<Rightarrow> string \<Rightarrow> world \<Rightarrow> (exn + launched) \<times> world" where
  "launch_failed pid_dir pid_file w =
     (let w1 = say ErrorStartingServer w
      in if exists_file (fs w1 pid_dir) pid_file
         then (case unlink pid_dir pid_file w1 of
                 (Inl e, w2) \<Rightarrow> (Inl e, w2)
               | (Inr _, w2) \<Rightarrow> (Inr None, w2))
         else (Inr None, w1))"

text \<open>
  Lines 232 to 297: the \<^verbatim>\<open>try\<close> block of the background launch. The record is written
  as soon as the child is started; the child is polled once after the grace period.
\<close>

definition launch_background_body ::
  "path \<Rightarrow> string \<Rightarrow> int \<Rightarrow> bool \<Rightarrow> spawn \<Rightarrow> world \<Rightarrow> (exn + launched) \<times> world" where
  "launch_background_body pid_dir pid_file actual_port no_browser sp w =
     (case popen_result sp of
        PopenRaises e \<Rightarrow> (Inl e, w)
      | Child pid after_grace stderr_output \<Rightarrow>
          (let w1 = w\<lparr>fs := (fs w)(pid_dir := write_text (fs w pid_dir) pid_file (py_str pid))\<rparr>;
               w2 = say (PidSaved pid (pjoin pid_dir pid_file)) w1;
               w3 = w2\<lparr>procs := (procs w2)(pid := after_grace)\<rparr>
           in if after_grace = None then
                (let w4 = say ServerFailedToStart w3;
                     w5 = (if stderr_output \<noteq> [] then say (StderrOutput stderr_output) w4 else w4)
                 in case unlink pid_dir pid_file w5 of
                      (Inl e, w6) \<Rightarrow> (Inl e, w6)
                    | (Inr _, w6) \<Rightarrow> (Inr None, w6))
              else if \<not> no_browser then
                (let w4 = say OpeningBrowser w3
                 in case opener_raises sp of
                      Some e \<Rightarrow> (Inl e, w4)
                    | None \<Rightarrow>
                        (Inr (Some (actual_port, Some pid)),
                         says [RunningInBackground, KillHint] w4))
              else
                (Inr (Some (actual_port, Some pid)), says [RunningInBackground, KillHint] w3)))"

definition launch_background ::
  "path \<Rightarrow> path \<Rightarrow> string \<Rightarrow> int \<Rightarrow> string \<Rightarrow> bool \<Rightarrow> spawn \<Rightarrow> world
   \<Rightarrow> (exn + launched) \<times> world" where
  "launch_background serve_dir pid_dir pid_file actual_port hostname no_browser sp w =
     (let w1 = says [StartingBackground, Serving serve_dir, Url hostname actual_port] w
      in case launch_background_body pid_dir pid_file actual_port no_browser sp w1 of
           (Inl e, w2) \<Rightarrow> if is_Exception e then launch_failed pid_dir pid_file w2 else (Inl e, w2)
         | r \<Rightarrow> r)"

text \<open>
  \<^verbatim>\<open>launch_server\<close>. The result is \<open>Inr None\<close> for the source's \<^verbatim>\<open>return None\<close>,
  \<open>Inr (Some (port, pid))\<close> for a returned pair and \<open>Inl e\<close> for an exception that leaves
  the function. (\<open>remote\<close> only adds a flag to the child's command line.)
\<close>

definition launch_server ::
  "string option \<Rightarrow> int \<Rightarrow> string \<Rightarrow> bool \<Rightarrow> bool \<Rightarrow> bool \<Rightarrow> spawn \<Rightarrow> world
   \<Rightarrow> (exn + launched) \<times> world" where
  "launch_server directory port hostname foreground remote no_browser sp w =
     (let serve_dir = serve_directory (host_of w) directory
      in case find_available_port (ports w) port 100 of
           Inl e \<Rightarrow> (Inl e, w)
         | Inr None \<Rightarrow> (Inr None, say (NoPortsFound port) w)
         | Inr (Some actual_port) \<Rightarrow>
             (let w1 = (if actual_port \<noteq> port then say (PortInUse port actual_port) w else w);
                  pid_dir = get_pid_directory (host_of w1) serve_dir;
                  pid_file = pid_file_name actual_port
              in case check_record pid_dir pid_file actual_port hostname w1 of
                   (Inl e, w2) \<Rightarrow> (Inl e, w2)
                 | (Inr True, w2) \<Rightarrow> (Inr None, w2)
                 | (Inr False, w2) \<Rightarrow>
                     if foreground
                     then launch_foreground serve_dir actual_port hostname sp w2
                     else launch_background serve_dir pid_dir pid_file actual_port hostname
                            no_browser sp w2))"

section \<open>LifecycleController: status\<close>

text \<open>
  Lines 332 to 345: the classification loop. Only ValueError is caught; an OSError of
  the read, or an exception of the liveness probe, leaves \<^verbatim>\<open>status_server\<close>.
\<close>

fun status_scan ::
  "listing \<Rightarrow> proctable \<Rightarrow> string list \<Rightarrow> (int \<times> string) list \<Rightarrow> string list
   \<Rightarrow> exn + ((int \<times> string) list \<times> string list)" where
  "status_scan d ps [] running_viewers stale_files = Inr (running_viewers, stale_files)"
| "status_scan d ps (pid_file # rest) running_viewers stale_files =
     (case read_pid d pid_file of
        Inl ValueError \<Rightarrow> status_scan d ps rest running_viewers (stale_files @ [pid_file])
      | Inl e \<Rightarrow> Inl e
      | Inr pid \<Rightarrow>
          (case is_process_running ps pid of
             Inl e \<Rightarrow> Inl e
           | Inr True \<Rightarrow>
               status_scan d ps rest (running_viewers @ [(pid, port_of_file pid_file)]) stale_files
           | Inr False \<Rightarrow> status_scan d ps rest running_viewers (stale_files @ [pid_file])))"

text \<open>Lines 348 and 349: the stale files are unlinked one after the other.\<close>

fun unlink_all :: "path \<Rightarrow> string list \<Rightarrow> world \<Rightarrow> (exn + unit) \<times> world" where
  "unlink_all dir [] w = (Inr (), w)"
| "unlink_all dir (stale_file # rest) w =
     (case unlink dir stale_file w of
        (Inl e, w1) \<Rightarrow> (Inl e, w1)
      | (Inr _, w1) \<Rightarrow> unlink_all dir rest w1)"

definition status_server ::
  "string option \<Rightarrow> world \<Rightarrow> (exn + (int \<times> string) list) \<times> world" where
  "status_server directory w =
     (let serve_dir = serve_directory (host_of w) directory;
          pid_dir = get_pid_directory (host_of w) serve_dir;
          pid_files = glob_pid_files (fs w pid_dir)
      in if pid_files = [] then (Inr [], say NoViewersRunning w)
         else
           (case status_scan (fs w pid_dir) (procs w) pid_files [] [] of
              Inl e \<Rightarrow> (Inl e, w)
            | Inr (running_viewers, stale_files) \<Rightarrow>
                (case unlink_all pid_dir stale_files w of
                   (Inl e, w1) \<Rightarrow> (Inl e, w1)
                 | (Inr _, w1) \<Rightarrow>
                     if running_viewers \<noteq> [] then
                       (Inr running_viewers,
                        says ([ViewersRunning (length running_viewers)]
                              @ map (\<lambda>(pid, port). ViewerLine port pid) running_viewers
                              @ [Serving serve_dir]) w1)
                     else if stale_files \<noteq> [] then
                       (Inr [], say (NoViewersCleaned (length stale_files)) w1)
                     else (Inr [], say NoViewersRunning w1))))"

section \<open>LifecycleController: kill\<close>

text \<open>
  Lines 417 to 430 without the counter: SIGTERM, the grace period, the probe, and
  SIGKILL when the process still runs.
\<close>

definition terminate :: "int \<Rightarrow> string \<Rightarrow> world \<Rightarrow> (exn + unit) \<times> world" where
  "terminate pid port_num w =
     (case os_kill pid SIGTERM (procs w) of
        Inl e \<Rightarrow> (Inl e, w)
      | Inr ps \<Rightarrow>
          (let w1 = say (Stopped port_num pid) (w\<lparr>procs := ps\<rparr>)
           in case is_process_running (procs w1) pid of
                Inl e \<Rightarrow> (Inl e, w1)
              | Inr False \<Rightarrow> (Inr (), w1)
              | Inr True \<Rightarrow>
                  (let w2 = say ForceKilling w1
                   in case os_kill pid SIGKILL (procs w2) of
                        Inl e \<Rightarrow> (Inl e, w2)
                      | Inr ps' \<Rightarrow> (Inr (), w2\<lparr>procs := ps'\<rparr>))))"

text \<open>
  Line 440, the unlink after the inner \<^verbatim>\<open>try\<close>: an exception it raises is caught by
  \<^verbatim>\<open>except Exception\<close> of the outer \<^verbatim>\<open>try\<close>. The pair is what this file adds to
  \<^verbatim>\<open>killed_count\<close> and \<^verbatim>\<open>failed_count\<close>.
\<close>

definition unlink_record ::
  "path \<Rightarrow> string \<Rightarrow> nat \<Rightarrow> nat \<Rightarrow> world \<Rightarrow> (exn + nat \<times> nat) \<times> world" where
  "unlink_record dir pid_file killed failed w =
     (case unlink dir pid_file w of
        (Inr _, w1) \<Rightarrow> (Inr (killed, failed), w1)
      | (Inl e, w1) \<Rightarrow>
          if is_Exception e then (Inr (killed, failed + 1), say (ErrorProcessing pid_file) w1)
          else (Inl e, w1))"

text \<open>Lines 412 to 448: one existing file of the kill loop.\<close>

definition kill_one :: "path \<Rightarrow> string \<Rightarrow> world \<Rightarrow> (exn + nat \<times> nat) \<times> world" where
  "kill_one dir pid_file w =
     (case read_pid (fs w dir) pid_file of
        Inl ValueError \<Rightarrow>
          (case unlink dir pid_file (say (InvalidPidFile pid_file) w) of
             (Inl e, w1) \<Rightarrow> (Inl e, w1)
           | (Inr _, w1) \<Rightarrow> (Inr (0, 1), w1))
      | Inl e \<Rightarrow>
          if is_Exception e then (Inr (0, 1), say (ErrorProcessing pid_file) w) else (Inl e, w)
      | Inr pid \<Rightarrow>
          (case terminate pid (port_of_file pid_file) w of
             (Inr _, w1) \<Rightarrow> unlink_record dir pid_file 1 0 w1
           | (Inl (OSError en), w1) \<Rightarrow>
               if en = ESRCH then unlink_record dir pid_file 0 0 (say (NotFound pid) w1)
               else unlink_record dir pid_file 0 1 (say (ErrorKilling pid) w1)
           | (Inl e, w1) \<Rightarrow>
               if is_Exception e then (Inr (0, 1), say (ErrorProcessing pid_file) w1)
               else (Inl e, w1)))"

text \<open>
  Lines 405 to 448: the loop over the targeted files. It ends by falling through with
  the two counters, or by the \<^verbatim>\<open>return 0\<close> of line 409.
\<close>

datatype loop_end = Finished nat nat | Returned nat

fun kill_loop ::
  "path \<Rightarrow> int option \<Rightarrow> string list \<Rightarrow> nat \<Rightarrow> nat \<Rightarrow> world \<Rightarrow> (exn + loop_end) \<times> world" where
  "kill_loop dir port [] killed_count failed_count w =
     (Inr (Finished killed_count failed_count), w)"
| "kill_loop dir port (pid_file # rest) killed_count failed_count w =
     (if \<not> exists_file (fs w dir) pid_file then
        (if truthy port then (Inr (Returned 0), say (NoViewerOnPort (the_port port)) w)
         else kill_loop dir port rest killed_count failed_count w)
      else
        (case kill_one dir pid_file w of
           (Inl e, w1) \<Rightarrow> (Inl e, w1)
         | (Inr (k, f), w1) \<Rightarrow> kill_loop dir port rest (killed_count + k) (failed_count + f) w1))"

text \<open>Lines 383 to 392: the files to kill.\<close>

definition target_files :: "listing \<Rightarrow> int option \<Rightarrow> bool \<Rightarrow> string list" where
  "target_files d port kill_all =
     (if truthy port then [pid_file_name (the_port port)]
      else if kill_all then glob_pid_files d
      else glob_pid_files d)"

definition kill_server ::
  "string option \<Rightarrow> int option \<Rightarrow> bool \<Rightarrow> world \<Rightarrow> (exn + nat) \<times> world" where
  "kill_server directory port kill_all w =
     (let serve_dir = serve_directory (host_of w) directory;
          pid_dir = get_pid_directory (host_of w) serve_dir;
          pid_files = target_files (fs w pid_dir) port kill_all
      in if pid_files = [] then
           (Inr 0, say (if truthy port then NoViewerOnPort (the_port port) else NoViewersRunning) w)
         else
           (case kill_loop pid_dir port pid_files 0 0 w of
              (Inl e, w1) \<Rightarrow> (Inl e, w1)
            | (Inr (Returned n), w1) \<Rightarrow> (Inr n, w1)
            | (Inr (Finished killed_count failed_count), w1) \<Rightarrow>
                (Inr killed_count,
                 if 0 < killed_count then say (StoppedSummary killed_count) w1 else w1)))"

section \<open>The command line\<close>

text \<open>
  \<^verbatim>\<open>main\<close> of \<^verbatim>\<open>cli.py\<close> after argument parsing: the three subcommands and the exit
  status of the process. An exception that leaves a handler ends the interpreter with
  a traceback and exit status 1.
\<close>

datatype command =
    Launch "string option" int string bool bool bool bool bool
  | Status "string option"
  | Kill "string option" "int option" bool

definition main :: "command \<Rightarrow> spawn \<Rightarrow> world \<Rightarrow> int \<times> world" where
  "main cmd sp w =
     (case cmd of
        Launch directory port hostname foreground remote local no_remote no_browser \<Rightarrow>
          (let remote' = (if local then False else if no_remote then False else remote)
           in case launch_server directory port hostname foreground remote' no_browser sp w of
                (Inl e, w1) \<Rightarrow> (1, w1)
              | (Inr None, w1) \<Rightarrow> (1, w1)
              | (Inr (Some r), w1) \<Rightarrow> (0, w1))
      | Status directory \<Rightarrow>
          (case status_server directory w of
             (Inl e, w1) \<Rightarrow> (1, w1)
           | (Inr viewers, w1) \<Rightarrow> (0, w1))
      | Kill directory port kill_all \<Rightarrow>
          (case kill_server directory port kill_all w of
             (Inl e, w1) \<Rightarrow> (1, w1)
           | (Inr killed, w1) \<Rightarrow> (if 0 < killed then 0 else 1, w1)))"

section \<open>Notions used in the statements\<close>

text \<open>The message \<^verbatim>\<open>Stopped viewer on port ... (PID ...)\<close>, printed when SIGTERM has been delivered.\<close>

definition is_Stopped :: "msg \<Rightarrow> bool" where
  "is_Stopped m = (case m of Stopped port_num pid \<Rightarrow> True | _ \<Rightarrow> False)"

definition stopped_count :: "msg list \<Rightarrow> nat" where
  "stopped_count ms = length (filter is_Stopped ms)"

text \<open>The PIDs that \<^verbatim>\<open>os.kill\<close> can pass to the kernel.\<close>

definition fits_c_int :: "int \<Rightarrow> bool" where
  "fits_c_int pid = (- 2147483648 \<le> pid \<and> pid \<le> 2147483647)"

text \<open>A record that can be read, and whose content is malformed or a PID that \<^verbatim>\<open>os.kill\<close> can pass on.\<close>

definition removable :: "listing \<Rightarrow> string \<Rightarrow> bool" where
  "removable d n =
     (case read_pid d n of
        Inl ValueError \<Rightarrow> True
      | Inl e \<Rightarrow> False
      | Inr pid \<Rightarrow> fits_c_int pid)"

text \<open>The instance directory that an operation called with \<open>directory\<close> resolves.\<close>

definition pid_dir_of :: "world \<Rightarrow> string option \<Rightarrow> path" where
  "pid_dir_of w directory = get_pid_directory (host_of w) (serve_directory (host_of w) directory)"





text \<open>
  The record of the child that this launch started: the child is running when the grace
  period is over, the file holds its PID, and the process table has the child.
\<close>

definition child_record :: "spawn \<Rightarrow> world \<Rightarrow> fnode option \<Rightarrow> bool" where
  "child_record sp w f =
     (case popen_result sp of
        PopenRaises e \<Rightarrow> False
      | Child pid after_grace err \<Rightarrow>
          after_grace \<noteq> None \<and> f = Some (Text (py_str pid)) \<and> procs w pid = after_grace)"



section \<open>Scenarios\<close>



definition linux_host :: host where
  "linux_host = \<lparr>platform_system = Linux, home = ''/home/u'', cwd = ''/srv/docs'',
                  appdata = None, localappdata = None, temp = None, tmp_exists = True,
                  resolve = (\<lambda>p. p), usable = (\<lambda>p. True)\<rparr>"

definition cache_pids :: path where
  "cache_pids = ''/home/u/.cache/aigon/pids''"

definition all_ports_free :: "int \<Rightarrow> bool" where
  "all_ports_free p = True"

definition world_of :: "listing \<Rightarrow> proctable \<Rightarrow> world" where
  "world_of d ps = \<lparr>host_of = linux_host, fs = (\<lambda>p. if p = cache_pids then d else []),
                    procs = ps, ports = all_ports_free, out = []\<rparr>"

definition no_procs :: proctable where
  "no_procs pid = None"

definition idle_spawn :: spawn where
  "idle_spawn = \<lparr>run_raises = None, popen_result = PopenRaises (OSError ENOENT),
                  opener_raises = None\<rparr>"

definition record_4444 :: string where
  "record_4444 = ''fileserver.4444.pid''"

definition record_4445 :: string where
  "record_4445 = ''fileserver.4445.pid''"

definition stale_dir :: listing where
  "stale_dir = [(record_4444, Text ''123'')]"

definition unreadable_dir :: listing where
  "unreadable_dir = [(record_4444, Unreadable)]"

definition huge_pid_dir :: listing where
  "huge_pid_dir = [(record_4444, Text ''4294967296'')]"

definition two_records :: listing where
  "two_records = [(record_4444, Text ''77''), (record_4445, Text ''200'')]"

definition guarded_and_live :: proctable where
  "guarded_and_live pid =
     (if pid = 77 then Some (Proc False False)
      else if pid = 200 then Some (Proc True True) else None)"

definition localhost :: string where
  "localhost = ''127.0.0.1''"

definition live_dir :: listing where
  "live_dir = [(record_4444, Text ''200'')]"

definition good_spawn :: spawn where
  "good_spawn = \<lparr>run_raises = None, popen_result = Child 500 (Some (Proc True True)) [],
                  opener_raises = None\<rparr>"

definition crashing_spawn :: spawn where
  "crashing_spawn = \<lparr>run_raises = None, popen_result = Child 500 None ''Address already in use'',
                      opener_raises = None\<rparr>"




definition other_viewer_dir :: listing where
  "other_viewer_dir = [(record_4445, Text ''200'')]"

section \<open>Properties of the port allocator\<close>

lemma socket_bind_in_range:
  "0 \<le> port \<Longrightarrow> port \<le> 65535 \<Longrightarrow>
   socket_bind free port = (if free port then Inr () else Inl (OSError EADDRINUSE))"
  by (simp add: socket_bind_def)







section \<open>Files, signals and messages\<close>

lemma say_simps [simp]:
  "fs (say m w) = fs w" "procs (say m w) = procs w" "host_of (say m w) = host_of w"
  "ports (say m w) = ports w" "out (say m w) = out w @ [m]"
  by (simp_all add: say_def)

lemma says_simps [simp]:
  "fs (says ms w) = fs w" "procs (says ms w) = procs w" "host_of (says ms w) = host_of w"
  "ports (says ms w) = ports w" "out (says ms w) = out w @ ms"
  by (simp_all add: says_def)

lemma stopped_count_append [simp]:
  "stopped_count (ms @ ms') = stopped_count ms + stopped_count ms'"
  by (simp add: stopped_count_def)

lemma stopped_count_Cons [simp]:
  "stopped_count (m # ms) = (if is_Stopped m then 1 else 0) + stopped_count ms"
  by (simp add: stopped_count_def)

lemma stopped_count_Nil [simp]: "stopped_count [] = 0"
  by (simp add: stopped_count_def)

lemma is_Stopped_simps [simp]:
  "is_Stopped (Stopped pn pid)"
  "\<not> is_Stopped ForceKilling"
  "\<not> is_Stopped (NotFound pid)"
  "\<not> is_Stopped (ErrorKilling pid)"
  "\<not> is_Stopped (InvalidPidFile n)"
  "\<not> is_Stopped (ErrorProcessing n)"
  "\<not> is_Stopped (NoViewerOnPort p)"
  "\<not> is_Stopped NoViewersRunning"
  "\<not> is_Stopped (StoppedSummary k)"
  by (simp_all add: is_Stopped_def)


lemma unlink_missing:
  "\<not> exists_file (fs w dir) n \<Longrightarrow> unlink dir n w = (Inl (OSError ENOENT), w)"
  by (simp add: unlink_def)

lemma exists_file_delete [simp]: "\<not> exists_file (AList.delete n d) n"
  by (simp add: exists_file_def AList.delete_conv)

lemma read_pid_exists: "read_pid d n = Inr pid \<Longrightarrow> exists_file d n"
  by (auto simp: read_pid_def read_text_def exists_file_def split: option.splits)

lemma read_pid_ValueError_exists: "read_pid d n = Inl ValueError \<Longrightarrow> exists_file d n"
  by (auto simp: read_pid_def read_text_def exists_file_def split: option.splits fnode.splits)



lemma is_process_running_eq:
  "is_process_running ps pid =
     (if \<not> fits_c_int pid then Inl OverflowError
      else Inr (case ps pid of None \<Rightarrow> False | Some p \<Rightarrow> signalable p))"
  by (auto simp: is_process_running_def os_kill_def fits_c_int_def split: option.splits)












lemma exists_file_cong: "map_of d n = map_of d' n \<Longrightarrow> exists_file d n = exists_file d' n"
  by (simp add: exists_file_def)







section \<open>Properties of kill\<close>

lemma kill_loop_zero: "kill_loop dir (Some 0) ns k f w = kill_loop dir None ns k f w"
  by (induction dir "None :: int option" ns k f w rule: kill_loop.induct)
     (auto simp: truthy_def split: prod.splits sum.splits)

text \<open>
  C10. \<^verbatim>\<open>kill_server\<close> with \<open>port = 0\<close> does not single out the record of port 0: the
  port is tested for truthiness, so the targeted files are all the record files of the
  instance directory, and the whole call behaves as the call without a port does.
\<close>

theorem kill_port_zero_targets_all:
  "target_files d (Some 0) kill_all = glob_pid_files d
   \<and> kill_server directory (Some 0) kill_all w = kill_server directory None kill_all w"
  by (simp add: kill_server_def target_files_def truthy_def kill_loop_zero Let_def)



section \<open>Running the model on the scenarios\<close>

lemma pid_dir_linux_host [simp]: "get_pid_directory linux_host d = cache_pids"
  by (simp add: get_pid_directory_def linux_host_def candidates_def pjoin_def cache_pids_def)

lemma pid_dir_of_world_of [simp]: "pid_dir_of (world_of d ps) directory = cache_pids"
  by (simp add: pid_dir_of_def world_of_def)

lemmas run_defs =
  kill_server_def target_files_def glob_pid_files_def is_pid_file_name_def truthy_def the_port_def
  kill_one_def read_pid_def read_text_def py_int_def py_strip_def py_isspace_def is_digit_def
  digits_val_def digit_val_def terminate_def os_kill_def is_process_running_def unlink_record_def
  unlink_def exists_file_def say_def says_def world_of_def serve_directory_def port_of_file_def
  py_stem_def last_part_def is_Exception_def main_def status_server_def no_procs_def
  idle_spawn_def record_4444_def record_4445_def stale_dir_def unreadable_dir_def huge_pid_dir_def
  two_records_def guarded_and_live_def removable_def fits_c_int_def all_ports_free_def
  stopped_count_def is_Stopped_def

section \<open>kill: what is counted and what is deleted\<close>







section \<open>status: exceptions that are not caught\<close>

text \<open>
  C3 at a failing input. The instance directory holds one record file that cannot be
  read. The read raises OSError, the loop of \<^verbatim>\<open>status_server\<close> catches only ValueError,
  the exception leaves \<^verbatim>\<open>status_server\<close> and \<^verbatim>\<open>main\<close>, and the exit status is 1, not 0.
  Likewise the unlink of a stale file that is already gone raises FileNotFoundError,
  which nothing catches.
\<close>

theorem status_unreadable_record_raises:
  "glob_pid_files (fs (world_of unreadable_dir no_procs) cache_pids) = [record_4444]
   \<and> fst (status_server None (world_of unreadable_dir no_procs)) = Inl (OSError EACCES)
   \<and> fst (main (Status None) idle_spawn (world_of unreadable_dir no_procs)) = 1
   \<and> fst (unlink_all cache_pids [record_4444] (world_of [] no_procs)) = Inl (OSError ENOENT)"
  by (simp add: run_defs)

section \<open>status: classification and cleanup\<close>



lemma read_pid_error: "read_pid d n = Inl e \<Longrightarrow> e = ValueError \<or> (\<exists>en. e = OSError en)"
  by (auto simp: read_pid_def read_text_def py_int_def
           split: option.splits fnode.splits list.splits if_splits)










section \<open>launch: the existing record and the spawn\<close>

lemma check_record_missing:
  "\<not> exists_file (fs w dir) n \<Longrightarrow> check_record dir n ap h w = (Inr False, w)"
  by (simp add: check_record_def)

lemma check_record_running:
  assumes "read_pid (fs w dir) n = Inr pid" and "is_process_running (procs w) pid = Inr True"
  shows "check_record dir n ap h w =
           (Inr True, says [AlreadyRunning ap pid, Url h ap, KillPortHint ap] w)"
  using assms read_pid_exists [OF assms(1)]
  by (simp add: check_record_def check_record_body_def)

lemma check_record_not_running:
  assumes "read_pid (fs w dir) n = Inr pid" and "is_process_running (procs w) pid = Inr False"
  shows "check_record dir n ap h w =
           (Inr False, w\<lparr>fs := (fs w)(dir := AList.delete n (fs w dir))\<rparr>)"
  using assms read_pid_exists [OF assms(1)]
  by (simp add: check_record_def check_record_body_def unlink_def)

lemma check_record_malformed:
  assumes "read_pid (fs w dir) n = Inl ValueError"
  shows "check_record dir n ap h w =
           (Inr False, w\<lparr>fs := (fs w)(dir := AList.delete n (fs w dir))\<rparr>)"
  using assms read_pid_ValueError_exists [OF assms]
  by (simp add: check_record_def check_record_body_def unlink_def)

lemma check_record_unreadable:
  assumes "exists_file (fs w dir) n" and "read_pid (fs w dir) n = Inl (OSError en)"
  shows "check_record dir n ap h w =
           (Inr False, w\<lparr>fs := (fs w)(dir := AList.delete n (fs w dir))\<rparr>)"
  using assms
  by (simp add: check_record_def check_record_body_def unlink_def)

lemma check_record_overflow:
  assumes "read_pid (fs w dir) n = Inr pid" and "\<not> fits_c_int pid"
  shows "check_record dir n ap h w = (Inl OverflowError, w)"
  using assms read_pid_exists [OF assms(1)]
  by (simp add: check_record_def check_record_body_def is_process_running_eq)

text \<open>Every outcome of the check at once.\<close>

lemma check_record_cases:
  "(check_record dir n ap h w = (Inr False, w) \<and> \<not> exists_file (fs w dir) n)
   \<or> (\<exists>pid. check_record dir n ap h w =
               (Inr True, says [AlreadyRunning ap pid, Url h ap, KillPortHint ap] w)
            \<and> read_pid (fs w dir) n = Inr pid \<and> is_process_running (procs w) pid = Inr True)
   \<or> (check_record dir n ap h w =
         (Inr False, w\<lparr>fs := (fs w)(dir := AList.delete n (fs w dir))\<rparr>)
       \<and> exists_file (fs w dir) n)
   \<or> (\<exists>pid. check_record dir n ap h w = (Inl OverflowError, w)
            \<and> read_pid (fs w dir) n = Inr pid \<and> \<not> fits_c_int pid)"
proof (cases "exists_file (fs w dir) n")
  case False
  then show ?thesis by (simp add: check_record_missing)
next
  case True
  show ?thesis
  proof (cases "read_pid (fs w dir) n")
    case (Inl e)
    from read_pid_error [OF Inl] show ?thesis
    proof
      assume "e = ValueError"
      with Inl True show ?thesis by (simp add: check_record_malformed)
    next
      assume "\<exists>en. e = OSError en"
      with Inl True show ?thesis by (auto simp: check_record_unreadable)
    qed
  next
    case (Inr pid)
    show ?thesis
    proof (cases "fits_c_int pid")
      case False
      with Inr show ?thesis by (simp add: check_record_overflow)
    next
      case fits: True
      show ?thesis
      proof (cases "is_process_running (procs w) pid = Inr True")
        case True
        with Inr show ?thesis by (simp add: check_record_running)
      next
        case False
        with fits have "is_process_running (procs w) pid = Inr False"
          by (auto simp: is_process_running_eq)
        with Inr True show ?thesis by (simp add: check_record_not_running)
      qed
    qed
  qed
qed

lemma launch_foreground_effect:
  "launch_foreground serve_dir ap h sp w = (r, w') \<Longrightarrow>
   fs w' = fs w \<and> procs w' = procs w \<and> host_of w' = host_of w \<and> ports w' = ports w
   \<and> (r = Inr None \<or> r = Inr (Some (ap, None)) \<or> (\<exists>e. r = Inl e))"
  by (auto simp: launch_foreground_def Let_def split: option.splits exn.splits)

lemma map_of_write_text [simp]:
  "map_of (write_text d n s) x = (if x = n then Some (Text s) else map_of d x)"
  by (simp add: write_text_def AList.update_conv)

lemma exists_file_write_text [simp]: "exists_file (write_text d n s) n"
  by (simp add: exists_file_def)


section \<open>launch: outcomes\<close>

lemma find_available_port_free_start:
  "free port \<Longrightarrow> 0 \<le> port \<Longrightarrow> port \<le> 65535 \<Longrightarrow> 0 < n \<Longrightarrow>
   find_available_port free port n = Inr (Some port)"
proof -
  assume a: "free port" "0 \<le> port" "port \<le> 65535" "0 < n"
  then obtain m where "nat n = Suc m" by (cases "nat n") auto
  with a show ?thesis
    by (simp add: find_available_port_def socket_bind_in_range)
qed

lemma launch_server_after_check:
  assumes "find_available_port (ports w) port 100 = Inr (Some ap)"
    and "check_record (pid_dir_of w directory) (pid_file_name ap) ap h
           (if ap \<noteq> port then say (PortInUse port ap) w else w) = (Inr False, w2)"
  shows "launch_server directory port h fg remote nb sp w =
           (if fg then launch_foreground (serve_directory (host_of w) directory) ap h sp w2
            else launch_background (serve_directory (host_of w) directory)
                   (pid_dir_of w directory) (pid_file_name ap) ap h nb sp w2)"
  using assms by (cases "ap = port") (simp_all add: launch_server_def pid_dir_of_def Let_def)

lemma launch_server_stopped_by_check:
  assumes "find_available_port (ports w) port 100 = Inr (Some ap)"
    and "check_record (pid_dir_of w directory) (pid_file_name ap) ap h
           (if ap \<noteq> port then say (PortInUse port ap) w else w) = (r, w2)"
    and "r \<noteq> Inr False"
  shows "launch_server directory port h fg remote nb sp w =
           (case r of Inl e \<Rightarrow> Inl e | Inr b \<Rightarrow> Inr None, w2)"
  using assms
  by (cases "ap = port") (auto simp: launch_server_def pid_dir_of_def Let_def split: sum.splits bool.splits)

lemma launch_server_no_port:
  "find_available_port (ports w) port 100 = Inr None \<Longrightarrow>
   launch_server directory port h fg remote nb sp w = (Inr None, say (NoPortsFound port) w)"
  "find_available_port (ports w) port 100 = Inl e \<Longrightarrow>
   launch_server directory port h fg remote nb sp w = (Inl e, w)"
  by (simp_all add: launch_server_def)



lemma find_port_world_of [simp]:
  "find_available_port (ports (world_of d ps)) 4444 100 = Inr (Some 4444)"
  by (simp add: find_available_port_free_start world_of_def all_ports_free_def)

lemma find_port_all_free [simp]:
  "find_available_port all_ports_free 4444 100 = Inr (Some 4444)"
  by (simp add: find_available_port_free_start all_ports_free_def)

lemma cwd_linux_host [simp]: "cwd linux_host = ''/srv/docs''"
  by (simp add: linux_host_def)

lemma py_str_evals [simp]:
  "py_str 4444 = ''4444''" "py_str 4445 = ''4445''" "py_str 500 = ''500''"
  by (simp_all add: py_str_def nat_digits.simps digit_char_def)

lemmas launch_defs =
  launch_server_def check_record_def check_record_body_def launch_foreground_def
  launch_background_def launch_background_body_def launch_failed_def pid_file_name_def
  write_text_def localhost_def live_dir_def good_spawn_def crashing_spawn_def pjoin_def
  child_record_def pid_dir_of_def Let_def






section \<open>Stale records on every read path\<close>








section \<open>Text and integers\<close>

lemma underscore_not_digit [simp]: "\<not> is_digit CHR ''_''"
  by (simp add: is_digit_def)

lemma sign_not_digit [simp]: "\<not> is_digit CHR ''+''" "\<not> is_digit CHR ''-''"
  by (simp_all add: is_digit_def)






text \<open>Stripping.\<close>

lemma py_strip_ends:
  assumes "py_strip s \<noteq> []"
  shows "\<not> py_isspace (hd (py_strip s)) \<and> \<not> py_isspace (last (py_strip s))"
proof -
  define a where "a = dropWhile py_isspace s"
  define c where "c = dropWhile py_isspace (rev a)"
  have t: "py_strip s = rev c" by (simp add: py_strip_def a_def c_def)
  with assms have c: "c \<noteq> []" by simp
  then have hc: "\<not> py_isspace (hd c)" unfolding c_def by (rule hd_dropWhile)
  have "rev a \<noteq> []" using c by (auto simp: c_def)
  then have a: "a \<noteq> []" by simp
  then have ha: "\<not> py_isspace (hd a)" unfolding a_def by (rule hd_dropWhile)
  obtain pre where "rev a = pre @ c"
    unfolding c_def by (metis takeWhile_dropWhile_id)
  then have "last (rev a) = last c" using c by simp
  then have "last c = hd a" using a by (simp add: last_rev)
  with ha hc c show ?thesis
    unfolding t by (simp add: hd_rev last_rev)
qed

lemma py_strip_id:
  assumes "s \<noteq> []" "\<not> py_isspace (hd s)" "\<not> py_isspace (last s)"
  shows "py_strip s = s"
proof -
  have 1: "dropWhile py_isspace s = s" using assms(1,2) by (cases s) auto
  have "rev s \<noteq> []" "\<not> py_isspace (hd (rev s))"
    using assms(1,3) by (simp_all add: hd_rev)
  then have 2: "dropWhile py_isspace (rev s) = rev s" by (cases "rev s") auto
  show ?thesis by (simp add: py_strip_def 1 2)
qed

lemma py_strip_idem [simp]: "py_strip (py_strip s) = py_strip s"
proof (cases "py_strip s = []")
  case True
  have "py_strip [] = []" by (simp add: py_strip_def)
  with True show ?thesis by simp
next
  case False
  from py_strip_ends [OF False] False show ?thesis by (simp add: py_strip_id)
qed

lemma py_int_strip [simp]: "py_int (py_strip s) = py_int s"
  by (simp add: py_int_def)



text \<open>Writing a number and reading it back.\<close>

lemma digit_char_props:
  assumes "n < 10"
  shows "is_digit (digit_char n)" "digit_val (digit_char n) = n"
    "\<not> py_isspace (digit_char n)" "digit_char n \<noteq> CHR ''.''"
  using assms
  by (auto simp: eval_nat_numeral less_Suc_eq digit_char_def is_digit_def digit_val_def
                 py_isspace_def)

lemma nat_digits_all_digits: "c \<in> set (nat_digits n) \<Longrightarrow> is_digit c"
proof (induction n arbitrary: c rule: nat_digits.induct)
  case (1 n)
  show ?case
  proof (cases "n < 10")
    case True
    with "1.prems" show ?thesis
      by (simp add: nat_digits.simps [of n] digit_char_props)
  next
    case False
    with "1.prems" "1.IH" show ?thesis
      by (auto simp: nat_digits.simps [of n] digit_char_props)
  qed
qed

lemma nat_digits_nonempty [simp]: "nat_digits n \<noteq> []"
  by (simp add: nat_digits.simps [of n])

lemma all_digits_ok: "s \<noteq> [] \<Longrightarrow> \<forall>c\<in>set s. is_digit c \<Longrightarrow> digits_ok s"
proof (induction s rule: digits_ok.induct)
  case 1
  then show ?case by simp
next
  case (2 c)
  then show ?case by simp
next
  case (3 c d cs)
  then have "d \<noteq> CHR ''_''" by auto
  with 3 show ?case by simp
qed

lemma digits_val_snoc:
  "c \<noteq> CHR ''_'' \<Longrightarrow> digits_val (s @ [c]) = 10 * digits_val s + digit_val c"
  by (simp add: digits_val_def)

lemma digits_val_nat_digits: "digits_val (nat_digits n) = n"
proof (induction n rule: nat_digits.induct)
  case (1 n)
  show ?case
  proof (cases "n < 10")
    case True
    then show ?thesis
      using digit_char_props(1,2) [OF True]
      by (auto simp: nat_digits.simps [of n] digits_val_def)
  next
    case False
    have m: "n mod 10 < 10" by simp
    have "digit_char (n mod 10) \<noteq> CHR ''_''"
      using digit_char_props(1) [OF m] by auto
    with False "1.IH" show ?thesis
      by (simp add: nat_digits.simps [of n] digits_val_snoc digit_char_props(2) [OF m])
  qed
qed

lemma py_strip_nat_digits: "py_strip (nat_digits n) = nat_digits n"
proof -
  have "is_digit (hd (nat_digits n))" "is_digit (last (nat_digits n))"
    using nat_digits_all_digits [of _ n] by simp_all
  moreover have "is_digit c \<Longrightarrow> \<not> py_isspace c" for c
    by (auto simp: is_digit_def py_isspace_def)
  ultimately show ?thesis by (intro py_strip_id) auto
qed

lemma py_strip_signed: "py_strip (CHR ''-'' # nat_digits n) = CHR ''-'' # nat_digits n"
proof -
  have "is_digit (last (nat_digits n))"
    using nat_digits_all_digits [of _ n] by simp
  moreover have "is_digit c \<Longrightarrow> \<not> py_isspace c" for c
    by (auto simp: is_digit_def py_isspace_def)
  ultimately show ?thesis by (intro py_strip_id) (auto simp: py_isspace_def)
qed

lemma py_int_py_str: "py_int (py_str i) = Inr i"
proof (cases "i < 0")
  case True
  have "digits_ok (nat_digits (nat (- i)))"
    using nat_digits_all_digits by (intro all_digits_ok) auto
  with True show ?thesis
    by (simp add: py_str_def py_int_def py_strip_signed digits_val_nat_digits)
next
  case False
  have ok: "digits_ok (nat_digits (nat i))"
    using nat_digits_all_digits by (intro all_digits_ok) auto
  obtain c cs where c: "nat_digits (nat i) = c # cs" by (cases "nat_digits (nat i)") auto
  then have "is_digit c" using nat_digits_all_digits [of c "nat i"] by simp
  then have "c \<noteq> CHR ''-''" "c \<noteq> CHR ''+''" by auto
  moreover have "py_strip (c # cs) = c # cs"
    using py_strip_nat_digits [of "nat i"] c by simp
  ultimately show ?thesis
    using False ok c digits_val_nat_digits [of "nat i"]
    by (simp add: py_str_def py_int_def)
qed

lemma read_pid_written:
  "map_of d n = Some (Text (py_str pid)) \<Longrightarrow> read_pid d n = Inr pid"
  by (simp add: read_pid_def read_text_def py_int_py_str)

text \<open>The name of a record file and the port read back from it.\<close>

lemma py_str_no_dot: "CHR ''.'' \<notin> set (py_str i)"
proof -
  have "CHR ''.'' \<notin> set (nat_digits n)" for n
    using nat_digits_all_digits [of "CHR ''.''" n] by (auto simp: is_digit_def)
  then show ?thesis by (simp add: py_str_def)
qed

lemma py_str_nonempty [simp]: "py_str i \<noteq> []"
  by (simp add: py_str_def)

lemma last_part_after_dot:
  "CHR ''.'' \<notin> set t \<Longrightarrow> last_part (a @ CHR ''.'' # t) = t"
proof -
  assume "CHR ''.'' \<notin> set t"
  then have tw: "takeWhile (\<lambda>c. c \<noteq> CHR ''.'') (rev t) = rev t"
    by (auto simp: takeWhile_eq_all_conv)
  show ?thesis
    by (simp add: last_part_def takeWhile_tail tw)
qed

lemma port_of_pid_file_name: "port_of_file (pid_file_name port) = py_str port"
proof -
  define t where "t = py_str port"
  have t: "CHR ''.'' \<notin> set t" "t \<noteq> []" by (simp_all add: t_def py_str_no_dot)
  have n: "pid_file_name port = (''fileserver.'' @ t) @ CHR ''.'' # ''pid''"
    by (simp add: pid_file_name_def t_def)
  have l: "last_part (pid_file_name port) = ''pid''"
    unfolding n by (rule last_part_after_dot) simp
  have stem: "py_stem (pid_file_name port) = ''fileserver.'' @ t"
    by (simp add: py_stem_def l Let_def) (simp add: n)
  have "last_part (''fileserver'' @ CHR ''.'' # t) = t"
    using t(1) by (rule last_part_after_dot)
  then show ?thesis by (simp add: port_of_file_def stem t_def)
qed

lemma is_pid_file_name_pid_file_name [simp]: "is_pid_file_name (pid_file_name port)"
proof -
  have "py_str port \<noteq> []" by simp
  then have "1 \<le> length (py_str port)" by (cases "py_str port") auto
  then show ?thesis by (simp add: is_pid_file_name_def pid_file_name_def)
qed

section \<open>Reading a record\<close>







section \<open>launch, then status\<close>

lemma launch_background_success:
  assumes "launch_background serve_dir dir n ap h nb sp w2 = (Inr (Some res), w')"
  shows "\<exists>pid p err. popen_result sp = Child pid (Some p) err \<and> res = (ap, Some pid)
           \<and> fs w' = (fs w2)(dir := write_text (fs w2 dir) n (py_str pid))
           \<and> procs w' = (procs w2)(pid \<mapsto> p)
           \<and> host_of w' = host_of w2 \<and> ports w' = ports w2"
proof (cases "popen_result sp")
  case (PopenRaises e)
  with assms show ?thesis
    by (auto simp: launch_background_def launch_background_body_def launch_failed_def
                   unlink_def Let_def split: if_splits)
next
  case (Child pid after_grace err)
  show ?thesis
  proof (cases after_grace)
    case None
    with Child assms show ?thesis
      by (auto simp: launch_background_def launch_background_body_def unlink_def Let_def
               split: if_splits)
  next
    case (Some p)
    show ?thesis
    proof (cases "nb \<or> opener_raises sp = None")
      case True
      with Some Child assms show ?thesis
        by (auto simp: launch_background_def launch_background_body_def Let_def
                 split: if_splits option.splits)
    next
      case False
      with Some Child assms show ?thesis
        by (auto simp: launch_background_def launch_background_body_def launch_failed_def
                       unlink_def Let_def split: if_splits option.splits)
    qed
  qed
qed

lemma launch_server_success:
  assumes "launch_server directory port h fg remote nb sp w = (Inr (Some (ap, Some pid)), w')"
  shows "\<exists>p err l. popen_result sp = Child pid (Some p) err
           \<and> (l = fs w (pid_dir_of w directory)
                \<or> l = AList.delete (pid_file_name ap) (fs w (pid_dir_of w directory)))
           \<and> fs w' (pid_dir_of w directory) = write_text l (pid_file_name ap) (py_str pid)
           \<and> procs w' = (procs w)(pid \<mapsto> p)
           \<and> host_of w' = host_of w"
proof (cases "find_available_port (ports w) port 100")
  case (Inl e)
  with assms show ?thesis by (simp add: launch_server_no_port)
next
  case (Inr found)
  show ?thesis
  proof (cases found)
    case None
    with Inr assms show ?thesis by (simp add: launch_server_no_port)
  next
    case (Some ap')
    define w1 where "w1 = (if ap' \<noteq> port then say (PortInUse port ap') w else w)"
    define dir where "dir = pid_dir_of w directory"
    define n where "n = pid_file_name ap'"
    have f: "find_available_port (ports w) port 100 = Inr (Some ap')" using Inr Some by simp
    have w1: "fs w1 = fs w" "procs w1 = procs w" "host_of w1 = host_of w"
      by (simp_all add: w1_def)
    obtain c w2 where c: "check_record dir n ap' h w1 = (c, w2)"
      by (cases "check_record dir n ap' h w1")
    have c2: "(fs w2 dir = fs w dir \<or> fs w2 dir = AList.delete n (fs w dir))
              \<and> procs w2 = procs w \<and> host_of w2 = host_of w"
      using check_record_cases [of dir n ap' h w1] c w1 by auto
    show ?thesis
    proof (cases "c = Inr False")
      case False
      have "launch_server directory port h fg remote nb sp w =
              (case c of Inl e \<Rightarrow> Inl e | Inr b \<Rightarrow> Inr None, w2)"
        using launch_server_stopped_by_check [OF f _ False] c
        unfolding w1_def dir_def n_def by blast
      with assms show ?thesis by (auto split: sum.splits)
    next
      case True
      have l: "launch_server directory port h fg remote nb sp w =
           (if fg then launch_foreground (serve_directory (host_of w) directory) ap' h sp w2
            else launch_background (serve_directory (host_of w) directory) dir n ap' h nb sp w2)"
        using launch_server_after_check [OF f] c True
        unfolding w1_def dir_def n_def by blast
      show ?thesis
      proof (cases fg)
        case True
        with l assms have "launch_foreground (serve_directory (host_of w) directory) ap' h sp w2
                             = (Inr (Some (ap, Some pid)), w')"
          by simp
        from launch_foreground_effect [OF this] show ?thesis by simp
      next
        case False
        with l assms have b: "launch_background (serve_directory (host_of w) directory) dir n
                                ap' h nb sp w2 = (Inr (Some (ap, Some pid)), w')"
          by simp
        from launch_background_success [OF b] obtain p err where
          s: "popen_result sp = Child pid (Some p) err" "ap = ap'"
             "fs w' = (fs w2)(dir := write_text (fs w2 dir) n (py_str pid))"
             "procs w' = (procs w2)(pid \<mapsto> p)" "host_of w' = host_of w2"
          by auto
        from s c2 show ?thesis
          unfolding dir_def [symmetric] by (auto simp: n_def)
      qed
    qed
  qed
qed

lemma filter_single:
  assumes "distinct ks" and "x \<in> set ks" and "P x" and "\<forall>y\<in>set ks. P y \<longrightarrow> y = x"
  shows "filter P ks = [x]"
proof -
  have "filter P ks = filter (\<lambda>y. y = x) ks"
    using assms(3,4) by (intro filter_cong) auto
  also have "\<dots> = [x]"
    using assms(1,2) by (induction ks) (auto simp: filter_empty_conv)
  finally show ?thesis .
qed

lemma glob_after_write:
  assumes "distinct (map fst d)"
    and "\<forall>y\<in>set (glob_pid_files d). y = pid_file_name ap"
    and "l = d \<or> l = AList.delete (pid_file_name ap) d"
  shows "glob_pid_files (write_text l (pid_file_name ap) s) = [pid_file_name ap]"
proof -
  define x where "x = pid_file_name ap"
  have dl: "distinct (map fst l)"
    using assms(1,3) by (auto simp: AList.distinct_delete)
  have sub: "set (map fst l) \<subseteq> set (map fst d)"
    using assms(3) AList.dom_delete_subset [of "pid_file_name ap" d] by auto
  have d2: "distinct (map fst (write_text l x s))"
    using dl by (simp add: write_text_def AList.distinct_update)
  have in2: "x \<in> set (map fst (write_text l x s))"
    by (simp add: write_text_def AList.update_keys)
  have sub2: "set (map fst (write_text l x s)) \<subseteq> insert x (set (map fst d))"
    using sub by (auto simp: write_text_def AList.update_keys split: if_splits)
  have only: "\<forall>y\<in>set (map fst (write_text l x s)). is_pid_file_name y \<longrightarrow> y = x"
    using sub2 assms(2) by (auto simp: glob_pid_files_def x_def)
  have "filter is_pid_file_name (map fst (write_text l x s)) = [x]"
    using d2 in2 _ only by (rule filter_single) (simp add: x_def)
  then show ?thesis by (simp add: glob_pid_files_def x_def)
qed

lemma status_server_single:
  assumes "glob_pid_files (fs w (pid_dir_of w directory)) = [n]"
    and "read_pid (fs w (pid_dir_of w directory)) n = Inr pid"
    and "is_process_running (procs w) pid = Inr True"
  shows "fst (status_server directory w) = Inr [(pid, port_of_file n)]"
  using assms by (simp add: status_server_def pid_dir_of_def [symmetric] Let_def)

text \<open>
  C9, as amended. When a launch returns a port and a PID (a successful background
  launch), the instance directory that the served directory resolves to holds the
  record file named after the returned port, with the child's PID as its content. If
  that directory held no record file of another port, and the liveness probe finds the
  child running, the \<^verbatim>\<open>status_server\<close> that follows reports exactly one entry: the
  child's PID with the decimal text of the returned port.
\<close>

theorem launch_then_status:
  assumes "launch_server directory port h fg remote nb sp w = (Inr (Some (ap, Some pid)), w')"
    and "dir = pid_dir_of w directory"
    and "distinct (map fst (fs w dir))"
    and "\<forall>y\<in>set (glob_pid_files (fs w dir)). y = pid_file_name ap"
    and "is_process_running (procs w') pid = Inr True"
  shows "pid_dir_of w' directory = dir
       \<and> map_of (fs w' dir) (pid_file_name ap) = Some (Text (py_str pid))
       \<and> glob_pid_files (fs w' dir) = [pid_file_name ap]
       \<and> fst (status_server directory w') = Inr [(pid, py_str ap)]"
proof -
  from launch_server_success [OF assms(1)] obtain l where
    s: "l = fs w dir \<or> l = AList.delete (pid_file_name ap) (fs w dir)"
       "fs w' dir = write_text l (pid_file_name ap) (py_str pid)"
       "host_of w' = host_of w"
    unfolding assms(2) by blast
  have d: "pid_dir_of w' directory = dir"
    using s(3) by (simp add: pid_dir_of_def assms(2))
  have m: "map_of (fs w' dir) (pid_file_name ap) = Some (Text (py_str pid))"
    by (simp add: s(2))
  have g: "glob_pid_files (fs w' dir) = [pid_file_name ap]"
    unfolding s(2) using assms(3,4) s(1) by (rule glob_after_write)
  have r: "read_pid (fs w' dir) (pid_file_name ap) = Inr pid"
    using m by (rule read_pid_written)
  have "fst (status_server directory w') = Inr [(pid, port_of_file (pid_file_name ap))]"
    using g r assms(5) by (intro status_server_single) (simp_all add: d)
  then show ?thesis using d m g by (simp add: port_of_pid_file_name)
qed

text \<open>
  The theorem at a launch into an instance directory whose only record, at the chosen
  port, is stale.
\<close>

theorem launch_then_status_witness:
  "launch_server None 4444 localhost False False True good_spawn (world_of stale_dir no_procs)
     = (Inr (Some (4444, Some 500)),
        snd (launch_server None 4444 localhost False False True good_spawn
               (world_of stale_dir no_procs)))
   \<and> cache_pids = pid_dir_of (world_of stale_dir no_procs) None
   \<and> distinct (map fst (fs (world_of stale_dir no_procs) cache_pids))
   \<and> glob_pid_files (fs (world_of stale_dir no_procs) cache_pids) = [pid_file_name 4444]
   \<and> is_process_running
        (procs (snd (launch_server None 4444 localhost False False True good_spawn
                       (world_of stale_dir no_procs)))) 500 = Inr True
   \<and> fs (snd (launch_server None 4444 localhost False False True good_spawn
                 (world_of stale_dir no_procs))) cache_pids
       = [(''fileserver.4444.pid'', Text ''500'')]
   \<and> fst (status_server None
             (snd (launch_server None 4444 localhost False False True good_spawn
                     (world_of stale_dir no_procs)))) = Inr [(500, ''4444'')]"
  using launch_then_status
          [where directory = None and port = 4444 and h = localhost and fg = False
             and remote = False and nb = True and sp = good_spawn
             and w = "world_of stale_dir no_procs" and ap = 4444 and pid = 500
             and w' = "snd (launch_server None 4444 localhost False False True good_spawn
                              (world_of stale_dir no_procs))"
             and dir = cache_pids]
  by (simp add: run_defs launch_defs)

text \<open>
  C9 as stated fails when another viewer is already recorded in the instance
  directory, which all served directories share: the launch for \<^verbatim>\<open>/srv/a\<close> succeeds
  on port 4444, and the status that follows reports two live entries, not one. A
  successful foreground launch, for its part, writes no record at all.
\<close>

theorem launch_then_status_counterexample:
  "fst (launch_server (Some ''/srv/a'') 4444 localhost False False True good_spawn
          (world_of other_viewer_dir guarded_and_live)) = Inr (Some (4444, Some 500))
   \<and> fst (status_server (Some ''/srv/a'')
             (snd (launch_server (Some ''/srv/a'') 4444 localhost False False True good_spawn
                     (world_of other_viewer_dir guarded_and_live))))
       = Inr [(200, ''4445''), (500, ''4444'')]
   \<and> fst (launch_server (Some ''/srv/a'') 4444 localhost True False True good_spawn
             (world_of [] no_procs)) = Inr (Some (4444, None))
   \<and> fst (status_server (Some ''/srv/a'')
             (snd (launch_server (Some ''/srv/a'') 4444 localhost True False True good_spawn
                     (world_of [] no_procs)))) = Inr []"
  by (simp add: run_defs launch_defs other_viewer_dir_def)

end
